theory Spec2Isabelle
  imports Complex_Main "HOL-Library.Word"
begin

unbundle bit_operations_syntax

section \<open>Strings, code units and the character classes of the regular expressions\<close>

text \<open>
  A JavaScript string is a sequence of UTF-16 code units. A \<^typ>\<open>string\<close> stands for a
  JavaScript string all of whose code units are below 256 (the Latin-1 range), one
  \<^typ>\<open>char\<close> per code unit, so \<^const>\<open>length\<close> is the \<^verbatim>\<open>.length\<close> of the source.
  JavaScript numbers are modelled as exact reals: every score of the scorer is a sum
  of multiples of 5 and of the length score, whose value \<open>(n - 8) / 12 * 50\<close> a
  double rounds in its last bits when \<open>n - 8\<close> is not a multiple of 3.
\<close>

definition charCode :: "char \<Rightarrow> nat" where
  "charCode c = of_char c"

text \<open>\<^verbatim>\<open>/[a-z]/\<close>, \<^verbatim>\<open>/[A-Z]/\<close>, \<^verbatim>\<open>/\d/\<close>, \<^verbatim>\<open>\w\<close> and \<^verbatim>\<open>/\W/\<close> (no flags).\<close>

definition re_lower :: "char \<Rightarrow> bool" where
  "re_lower c = (97 \<le> charCode c \<and> charCode c \<le> 122)"

definition re_upper :: "char \<Rightarrow> bool" where
  "re_upper c = (65 \<le> charCode c \<and> charCode c \<le> 90)"

definition re_digit :: "char \<Rightarrow> bool" where
  "re_digit c = (48 \<le> charCode c \<and> charCode c \<le> 57)"

definition re_word :: "char \<Rightarrow> bool" where
  "re_word c = (re_lower c \<or> re_upper c \<or> re_digit c \<or> c = CHR ''_'')"

definition re_nonword :: "char \<Rightarrow> bool" where
  "re_nonword c = (\<not> re_word c)"

text \<open>
  The class of \<^verbatim>\<open>/[!@#$%^&*()_+\-=\[\]{}|;':",.<>\/?]+/\<close> in
  \<^verbatim>\<open>calculateSpecialCharactersScore\<close>: 29 characters (the backslashes only escape
  \<^verbatim>\<open>-\<close>, \<^verbatim>\<open>[\<close>, \<^verbatim>\<open>]\<close> and \<^verbatim>\<open>/\<close>). \<open>CHR 0x27\<close> is the apostrophe and \<open>CHR 0x22\<close>
  the double quote.
\<close>

definition specialCharacters :: "string" where
  "specialCharacters =
     ''!@#$%^&*()_+-=[]{}|;'' @ [CHR 0x27] @ '':'' @ [CHR 0x22] @ '',.<>/?''"

definition re_special :: "char \<Rightarrow> bool" where
  "re_special c = (c \<in> set specialCharacters)"

text \<open>
  \<^verbatim>\<open>re.test(s)\<close> for a regular expression that is one character class, or one class
  under \<^verbatim>\<open>+\<close>: the scan succeeds at the first code unit of the class.
\<close>

fun regex_test :: "(char \<Rightarrow> bool) \<Rightarrow> string \<Rightarrow> bool" where
  "regex_test cls [] = False"
| "regex_test cls (c # cs) = (cls c \<or> regex_test cls cs)"

text \<open>
  \<^verbatim>\<open>toLowerCase\<close> on code units below 256: \<^verbatim>\<open>A-Z\<close> and the Latin-1 capitals
  \<open>0xC0 .. 0xDE\<close> (but the multiplication sign \<open>0xD7\<close>) move up by 32, every other
  code unit stays.
\<close>

definition lowerChar :: "char \<Rightarrow> char" where
  "lowerChar c =
     (if re_upper c \<or> (192 \<le> charCode c \<and> charCode c \<le> 222 \<and> charCode c \<noteq> 215)
      then char_of (charCode c + 32) else c)"

definition toLowerCase :: "string \<Rightarrow> string" where
  "toLowerCase s = map lowerChar s"

text \<open>
  \<^verbatim>\<open>s.split(/\W+/)\<close>. The pieces between the maximal runs of non-word characters, in
  order; a run at the start or at the end of the string leaves an empty piece there,
  and the empty string splits into one empty piece. The first argument is the piece
  being read.
\<close>

function split_nonword :: "string \<Rightarrow> string \<Rightarrow> string list" where
  "split_nonword cur [] = [cur]"
| "split_nonword cur (c # cs) =
     (if re_nonword c then cur # split_nonword [] (dropWhile re_nonword cs)
      else split_nonword (cur @ [c]) cs)"
  by pat_completeness auto
termination
  by (relation "measure (\<lambda>(cur, s). length s)")
     (auto simp: le_imp_less_Suc length_dropWhile_le)

section \<open>CipherForge: the scorer\<close>

text \<open>
  The class \<^verbatim>\<open>CipherForge\<close> of \<^verbatim>\<open>src/unnamed/part_001\<close>, the text whose scoring
  scheme the specification takes as its reference. The two texts of
  \<^verbatim>\<open>src/index.js\<close> score differently (other weights, thresholds and penalties) and
  are not modelled.
\<close>

text \<open>
  The state a method of \<^verbatim>\<open>CipherForge\<close> can read and write: the two fields of the
  instance, and the console. A method takes the state and returns its value with the
  state it leaves.
\<close>

record forge =
  dictionaryFilePath :: string
  dictionary :: "string set"
  console :: "string list"

record ScoreDetails =
  lengthScore :: real
  diversityScore :: real
  specialCharactersScore :: real
  dictionaryScore :: real

record ScoreReport =
  isSecure :: bool
  totalScore :: real
  details :: ScoreDetails

definition calculateLengthScore :: "forge \<Rightarrow> string \<Rightarrow> real \<times> forge" where
  "calculateLengthScore this password =
     (let minLength = 8;
          maxLength = 20;
          len = real (length password)
      in if len < minLength then (0, this)
         else if len > maxLength then (50, this)
         else (((len - minLength) / (maxLength - minLength)) * 50, this))"

definition calculateDiversityScore :: "forge \<Rightarrow> string \<Rightarrow> real \<times> forge" where
  "calculateDiversityScore this password =
     (let characterSets = [re_lower, re_upper, re_digit, re_nonword];
          diversityScore' =
            foldl (\<lambda>score cls. score + (if regex_test cls password then 25 else 0))
              0 characterSets
      in (diversityScore', this))"

definition calculateSpecialCharactersScore :: "forge \<Rightarrow> string \<Rightarrow> real \<times> forge" where
  "calculateSpecialCharactersScore this password =
     ((if regex_test re_special password then 25 else 0), this)"

definition calculateDictionaryScore :: "forge \<Rightarrow> string \<Rightarrow> real \<times> forge" where
  "calculateDictionaryScore this password =
     (let lowercasePassword = toLowerCase password;
          wordsInPassword = split_nonword [] lowercasePassword;
          matchingWords = filter (\<lambda>word. word \<in> dictionary this) wordsInPassword;
          dictionaryScore' = max 0 (50 - real (length matchingWords) * 10)
      in (dictionaryScore', this))"

definition Test :: "forge \<Rightarrow> string \<Rightarrow> ScoreReport \<times> forge" where
  "Test this password =
     (case calculateLengthScore this password of (lengthScore', this1) \<Rightarrow>
      case calculateDiversityScore this1 password of (diversityScore', this2) \<Rightarrow>
      case calculateSpecialCharactersScore this2 password of (specialCharactersScore', this3) \<Rightarrow>
      case calculateDictionaryScore this3 password of (dictionaryScore', this4) \<Rightarrow>
      let totalScore' = lengthScore' + diversityScore' + specialCharactersScore' + dictionaryScore'
      in (\<lparr>isSecure = totalScore' \<ge> 75,
           totalScore = totalScore',
           details = \<lparr>lengthScore = lengthScore',
                      diversityScore = diversityScore',
                      specialCharactersScore = specialCharactersScore',
                      dictionaryScore = dictionaryScore'\<rparr>\<rparr>, this4))"

subsection \<open>Loading the dictionary and constructing the scorer\<close>

text \<open>
  \<^verbatim>\<open>data.split(/\r?\n/)\<close>: \<open>CHR 0x0A\<close> is the line feed and \<open>CHR 0x0D\<close> the carriage
  return.
\<close>

fun split_newline :: "string \<Rightarrow> string \<Rightarrow> string list" where
  "split_newline cur [] = [cur]"
| "split_newline cur [c] = (if c = CHR 0x0A then [cur, []] else [cur @ [c]])"
| "split_newline cur (c # d # cs) =
     (if c = CHR 0x0D \<and> d = CHR 0x0A then cur # split_newline [] cs
      else if c = CHR 0x0A then cur # split_newline [] (d # cs)
      else split_newline (cur @ [c]) (d # cs))"

text \<open>White space and line terminators below 256, as \<^verbatim>\<open>trim\<close> removes them.\<close>

definition isWhiteSpace :: "char \<Rightarrow> bool" where
  "isWhiteSpace c = (charCode c \<in> set [9, 10, 11, 12, 13, 32, 160])"

definition trim :: "string \<Rightarrow> string" where
  "trim s = rev (dropWhile isWhiteSpace (rev (dropWhile isWhiteSpace s)))"

text \<open>
  \<^verbatim>\<open>fs.readFileSync(path, 'utf-8')\<close> is a parameter: \<open>Inr data\<close> is the file's text,
  \<open>Inl message\<close> an \<^verbatim>\<open>Error\<close> thrown with that message.
\<close>

type_synonym filesystem = "string \<Rightarrow> string + string"

definition loadDictionary :: "filesystem \<Rightarrow> forge \<Rightarrow> string list \<times> forge" where
  "loadDictionary readFileSync this =
     (case readFileSync (dictionaryFilePath this) of
        Inr data \<Rightarrow>
          (filter (\<lambda>word. trim word \<noteq> []) (split_newline [] data), this)
      | Inl message \<Rightarrow>
          ([], this\<lparr>console := console this @
                 [''Error reading file '' @ dictionaryFilePath this @ '': '' @ message]\<rparr>))"

text \<open>
  What JavaScript raises by itself. \<open>InvalidArgument\<close> is the error kind of the
  specification; no statement of the source raises it.
\<close>

datatype error = TypeError | ReferenceError | InvalidArgument

text \<open>
  The identifiers a statement of the module can resolve: the module's own top-level
  bindings (line 1 binds \<^verbatim>\<open>fs\<close>; the two classes), the parameters of Node's module
  wrapper, and the globals the code uses. Node's global object holds more names, none
  of them \<^verbatim>\<open>path\<close>. Reading an identifier that is not bound raises
  \<^verbatim>\<open>ReferenceError\<close>.
\<close>

definition module_bindings :: "string list" where
  "module_bindings = [''fs'', ''CipherCraft'', ''CipherForge'']"

definition node_module_scope :: "string list" where
  "node_module_scope = [''exports'', ''require'', ''module'', ''__filename'', ''__dirname'']"

definition node_globals :: "string list" where
  "node_globals = [''console'', ''Set'', ''Math'', ''Array'', ''Uint8Array'']"

definition identifier_bound :: "string \<Rightarrow> bool" where
  "identifier_bound name = (name \<in> set (module_bindings @ node_module_scope @ node_globals))"

text \<open>
  \<^verbatim>\<open>path.join\<close> of Node on segments that need no normalisation. The constructor names
  it, and stops before it could call it.
\<close>

fun path_join :: "string list \<Rightarrow> string" where
  "path_join [] = ''.''"
| "path_join [p] = p"
| "path_join (p # q # ps) = p @ ''/'' @ path_join (q # ps)"

text \<open>
  \<^verbatim>\<open>new CipherForge()\<close>, lines 113 to 118 of \<^verbatim>\<open>part_001\<close>, in a program run as a
  script. \<open>main_path\<close> is \<^verbatim>\<open>require.main.path\<close> and \<open>console0\<close> the console before
  the call. The first statement reads the identifier \<^verbatim>\<open>path\<close>.
\<close>

definition CipherForge_constructor :: "filesystem \<Rightarrow> string \<Rightarrow> string list \<Rightarrow> error + forge" where
  "CipherForge_constructor readFileSync main_path console0 =
     (if \<not> identifier_bound ''path'' then Inl ReferenceError
      else
        let this = \<lparr>dictionaryFilePath =
                      path_join [main_path, ''node_modules'', ''cipherforge'', ''psw.txt''],
                    dictionary = {}, console = console0\<rparr>
        in case loadDictionary readFileSync this of
             (words, this') \<Rightarrow> Inr (this'\<lparr>dictionary := set words\<rparr>))"

section \<open>CipherCraft: the generator\<close>

text \<open>
  \<^verbatim>\<open>Math.floor(Math.random() * 256)\<close> is an integer from 0 to 255. The random source
  is the sequence of these bytes, and the state of the generator is the number of
  draws made so far.
\<close>

type_synonym rand = "nat \<Rightarrow> 8 word"

text \<open>\<^verbatim>\<open>_getRandomBytes(length)\<close>.\<close>

definition getRandomBytes :: "rand \<Rightarrow> nat \<Rightarrow> nat \<Rightarrow> 8 word list \<times> nat" where
  "getRandomBytes rnd len k = (map rnd [k ..< k + len], k + len)"

text \<open>
  \<^verbatim>\<open>_bytesToNumber(bytes)\<close>: \<^verbatim>\<open>(result << 8) | bytes[i]\<close> works on 32-bit integers and
  \<^verbatim>\<open>result >>> 0\<close> reads the 32 bits as unsigned.
\<close>

definition bytesToNumber :: "8 word list \<Rightarrow> nat" where
  "bytesToNumber bytes =
     unat (foldl (\<lambda>result b. push_bit 8 result OR ucast b) (0 :: 32 word) bytes)"

text \<open>
  \<^verbatim>\<open>RandInt(max)\<close> for a \<^verbatim>\<open>max\<close> that is a string's length. \<^verbatim>\<open>randomValue % 0\<close> is
  \<^verbatim>\<open>NaN\<close>, here \<open>None\<close>.
\<close>

definition RandInt :: "rand \<Rightarrow> nat \<Rightarrow> nat \<Rightarrow> nat option \<times> nat" where
  "RandInt rnd max' k =
     (case getRandomBytes rnd 4 k of (randomBytes, k') \<Rightarrow>
        let randomValue = bytesToNumber randomBytes
        in (if max' = 0 then None else Some (randomValue mod max'), k'))"

text \<open>
  \<^verbatim>\<open>charset[index]\<close> is \<^verbatim>\<open>undefined\<close> (here \<open>None\<close>) when the index is \<^verbatim>\<open>NaN\<close> or out
  of range, and \<^verbatim>\<open>password += v\<close> appends the text \<^verbatim>\<open>undefined\<close> for it.
\<close>

definition string_index :: "string \<Rightarrow> nat option \<Rightarrow> char option" where
  "string_index s index =
     (case index of None \<Rightarrow> None
      | Some i \<Rightarrow> if i < length s then Some (s ! i) else None)"

definition string_add :: "string \<Rightarrow> char option \<Rightarrow> string" where
  "string_add s v = s @ (case v of None \<Rightarrow> ''undefined'' | Some c \<Rightarrow> [c])"

text \<open>
  \<^verbatim>\<open>BasicPassword(charset, length)\<close> of index.js (lines 53 to 60), for an integer
  \<open>length\<close>: the loop at counter \<open>i\<close>, then the method.
\<close>

function BasicPassword_loop ::
  "rand \<Rightarrow> string \<Rightarrow> int \<Rightarrow> int \<Rightarrow> string \<Rightarrow> nat \<Rightarrow> string \<times> nat" where
  "BasicPassword_loop rnd charset len i password k =
     (if i < len
      then (case RandInt rnd (length charset) k of (randomIndex, k') \<Rightarrow>
              BasicPassword_loop rnd charset len (i + 1)
                (string_add password (string_index charset randomIndex)) k')
      else (password, k))"
  by pat_completeness auto
termination
  by (relation "measure (\<lambda>(rnd, charset, len, i, password, k). nat (len - i))") auto

declare BasicPassword_loop.simps [simp del]

definition BasicPassword :: "rand \<Rightarrow> string \<Rightarrow> int \<Rightarrow> nat \<Rightarrow> error + string \<times> nat" where
  "BasicPassword rnd charset len k = Inr (BasicPassword_loop rnd charset len 0 [] k)"

text \<open>
  The methods of the class by name, as a call \<^verbatim>\<open>this.name(...)\<close> finds them: those
  taking \<^verbatim>\<open>(max)\<close> and those taking \<^verbatim>\<open>(charset, length)\<close>. Calling a name that is
  no member raises \<^verbatim>\<open>TypeError\<close>.
\<close>

definition CipherCraft_max_method ::
  "string \<Rightarrow> (rand \<Rightarrow> nat \<Rightarrow> nat \<Rightarrow> nat option \<times> nat) option" where
  "CipherCraft_max_method name = map_of [(''RandInt'', RandInt)] name"

definition CipherCraft_charset_method ::
  "string \<Rightarrow> (rand \<Rightarrow> string \<Rightarrow> int \<Rightarrow> nat \<Rightarrow> error + string \<times> nat) option" where
  "CipherCraft_charset_method name = map_of [(''BasicPassword'', BasicPassword)] name"

text \<open>
  \<^verbatim>\<open>BasicPassword\<close> of \<^verbatim>\<open>part_001\<close> and of the second text of index.js: the loop calls
  \<^verbatim>\<open>this.getRandomInt\<close>.
\<close>

function BasicPassword_getRandomInt_loop ::
  "rand \<Rightarrow> string \<Rightarrow> int \<Rightarrow> int \<Rightarrow> string \<Rightarrow> nat \<Rightarrow> error + string \<times> nat" where
  "BasicPassword_getRandomInt_loop rnd charset len i password k =
     (if i < len
      then (case CipherCraft_max_method ''getRandomInt'' of
              None \<Rightarrow> Inl TypeError
            | Some getRandomInt \<Rightarrow>
                (case getRandomInt rnd (length charset) k of (randomIndex, k') \<Rightarrow>
                   BasicPassword_getRandomInt_loop rnd charset len (i + 1)
                     (string_add password (string_index charset randomIndex)) k'))
      else Inr (password, k))"
  by pat_completeness auto
termination
  by (relation "measure (\<lambda>(rnd, charset, len, i, password, k). nat (len - i))") auto

declare BasicPassword_getRandomInt_loop.simps [simp del]

definition BasicPassword_getRandomInt ::
  "rand \<Rightarrow> string \<Rightarrow> int \<Rightarrow> nat \<Rightarrow> error + string \<times> nat" where
  "BasicPassword_getRandomInt rnd charset len k =
     BasicPassword_getRandomInt_loop rnd charset len 0 [] k"

text \<open>
  The options object of \<^verbatim>\<open>CustomPassword\<close>: a property that is absent (\<open>None\<close>) takes
  its default. \<open>length_opt\<close> is the property \<^verbatim>\<open>length\<close>.
\<close>

record options =
  length_opt :: "int option"
  useLowercase :: "bool option"
  useUppercase :: "bool option"
  useNumbers :: "bool option"
  useSymbols :: "bool option"
  customCharset :: "string option"

record charsets =
  lowercase :: string
  uppercase :: string
  numeric :: string
  symbols :: string

definition CipherCraft_charsets :: charsets where
  "CipherCraft_charsets =
     \<lparr>lowercase = ''abcdefghijklmnopqrstuvwxyz'',
      uppercase = ''ABCDEFGHIJKLMNOPQRSTUVWXYZ'',
      numeric = ''0123456789'',
      symbols = ''!@#$%^&*()_+-=[]{}|;:,.<>?''\<rparr>"

text \<open>A parameter or property with a default value: \<^verbatim>\<open>undefined\<close> is \<open>None\<close>.\<close>

definition or_default :: "'a \<Rightarrow> 'a option \<Rightarrow> 'a" where
  "or_default d v = (case v of None \<Rightarrow> d | Some x \<Rightarrow> x)"

definition CustomPassword :: "rand \<Rightarrow> options \<Rightarrow> nat \<Rightarrow> error + string \<times> nat" where
  "CustomPassword rnd opts k =
     (let len = or_default 12 (length_opt opts);
          charset0 = or_default [] (customCharset opts);
          charset1 = (if or_default True (useLowercase opts)
                      then charset0 @ lowercase CipherCraft_charsets else charset0);
          charset2 = (if or_default True (useUppercase opts)
                      then charset1 @ uppercase CipherCraft_charsets else charset1);
          charset3 = (if or_default True (useNumbers opts)
                      then charset2 @ numeric CipherCraft_charsets else charset2);
          charset4 = (if or_default True (useSymbols opts)
                      then charset3 @ symbols CipherCraft_charsets else charset3)
      in case CipherCraft_charset_method ''generatePassword'' of
           None \<Rightarrow> Inl TypeError
         | Some generatePassword \<Rightarrow> generatePassword rnd charset4 len k)"

definition Key :: "rand \<Rightarrow> int option \<Rightarrow> nat \<Rightarrow> error + string \<times> nat" where
  "Key rnd length_arg k =
     (let len = or_default 32 length_arg;
          charset = ''abcdef0123456789''
      in case CipherCraft_charset_method ''generatePassword'' of
           None \<Rightarrow> Inl TypeError
         | Some generatePassword \<Rightarrow> generatePassword rnd charset len k)"

section \<open>The specification's wording, where it departs from the code\<close>

text \<open>
  The special-characters score as the specification words it: any character outside
  \<^verbatim>\<open>[A-Za-z0-9]\<close> counts.
\<close>

definition re_nonalnum :: "char \<Rightarrow> bool" where
  "re_nonalnum c = (\<not> (re_lower c \<or> re_upper c \<or> re_digit c))"

definition spec_specialCharactersScore :: "string \<Rightarrow> real" where
  "spec_specialCharactersScore password = (if regex_test re_nonalnum password then 25 else 0)"

text \<open>
  The dictionary score as the specification words it: ten points off for every
  distinct token that is an entry of the word list.
\<close>

definition spec_dictionaryScore :: "string set \<Rightarrow> string \<Rightarrow> real" where
  "spec_dictionaryScore wordList password =
     max 0 (50 - 10 * real (length (remdups
       (filter (\<lambda>token. token \<in> wordList) (split_nonword [] (toLowerCase password))))))"

text \<open>When \<^verbatim>\<open>generate\<close> fails with \<open>InvalidArgument\<close>, as the specification words it.\<close>

definition spec_generate_fails :: "string \<Rightarrow> int \<Rightarrow> bool" where
  "spec_generate_fails alphabet len = ((alphabet = [] \<and> len > 0) \<or> len < 0)"

section \<open>Sample inputs\<close>

definition forge_empty :: forge where
  "forge_empty = \<lparr>dictionaryFilePath = ''psw.txt'', dictionary = {}, console = []\<rparr>"

definition forge_ab :: forge where
  "forge_ab = \<lparr>dictionaryFilePath = ''psw.txt'', dictionary = {''ab''}, console = []\<rparr>"

definition rand_count :: rand where
  "rand_count i = of_nat i"

definition fs_missing :: filesystem where
  "fs_missing file = Inl ''ENOENT: no such file or directory''"

definition options_default :: options where
  "options_default =
     \<lparr>length_opt = None, useLowercase = None, useUppercase = None,
      useNumbers = None, useSymbols = None, customCharset = None\<rparr>"

section \<open>Properties of the scorer\<close>

lemma regex_test_iff: "regex_test cls s \<longleftrightarrow> (\<exists>c\<in>set s. cls c)"
  by (induction s) auto

lemmas class_defs = re_lower_def re_upper_def re_digit_def re_word_def re_nonword_def
  re_special_def re_nonalnum_def specialCharacters_def charCode_def

text \<open>The pieces \<^const>\<open>split_nonword\<close> returns hold word characters only.\<close>

lemma split_nonword_word_chars:
  "\<forall>c\<in>set cur. re_word c \<Longrightarrow> \<forall>t\<in>set (split_nonword cur s). \<forall>c\<in>set t. re_word c"
proof (induction cur s rule: split_nonword.induct)
  case (1 cur)
  then show ?case by simp
next
  case (2 cur c cs)
  show ?case
  proof (cases "re_nonword c")
    case True
    have "\<forall>t\<in>set (split_nonword [] (dropWhile re_nonword cs)). \<forall>c\<in>set t. re_word c"
      by (rule "2.IH"(1) [OF True]) simp
    with True "2.prems" show ?thesis by simp
  next
    case False
    then have "\<forall>x\<in>set (cur @ [c]). re_word x"
      using "2.prems" by (simp add: re_nonword_def)
    from "2.IH"(2) [OF False this] False show ?thesis by simp
  qed
qed

text \<open>No scoring method writes a field of the instance or to the console.\<close>

lemma calculateLengthScore_state: "snd (calculateLengthScore this p) = this"
  by (simp add: calculateLengthScore_def Let_def)

lemma calculateDiversityScore_state: "snd (calculateDiversityScore this p) = this"
  by (simp add: calculateDiversityScore_def Let_def)

lemma calculateSpecialCharactersScore_state:
  "snd (calculateSpecialCharactersScore this p) = this"
  by (simp add: calculateSpecialCharactersScore_def)

lemma calculateDictionaryScore_state: "snd (calculateDictionaryScore this p) = this"
  by (simp add: calculateDictionaryScore_def Let_def)

lemma Test_unfold:
  "Test this p =
     (\<lparr>isSecure =
         fst (calculateLengthScore this p) + fst (calculateDiversityScore this p) +
         fst (calculateSpecialCharactersScore this p) + fst (calculateDictionaryScore this p)
         \<ge> 75,
       totalScore =
         fst (calculateLengthScore this p) + fst (calculateDiversityScore this p) +
         fst (calculateSpecialCharactersScore this p) + fst (calculateDictionaryScore this p),
       details = \<lparr>lengthScore = fst (calculateLengthScore this p),
                  diversityScore = fst (calculateDiversityScore this p),
                  specialCharactersScore = fst (calculateSpecialCharactersScore this p),
                  dictionaryScore = fst (calculateDictionaryScore this p)\<rparr>\<rparr>, this)"
proof -
  obtain l s1 where l: "calculateLengthScore this p = (l, s1)"
    by (cases "calculateLengthScore this p")
  with calculateLengthScore_state [of this p] have s1: "s1 = this" by simp
  obtain d s2 where d: "calculateDiversityScore this p = (d, s2)"
    by (cases "calculateDiversityScore this p")
  with calculateDiversityScore_state [of this p] have s2: "s2 = this" by simp
  obtain c s3 where c: "calculateSpecialCharactersScore this p = (c, s3)"
    by (cases "calculateSpecialCharactersScore this p")
  with calculateSpecialCharactersScore_state [of this p] have s3: "s3 = this" by simp
  obtain w s4 where w: "calculateDictionaryScore this p = (w, s4)"
    by (cases "calculateDictionaryScore this p")
  with calculateDictionaryScore_state [of this p] have s4: "s4 = this" by simp
  show ?thesis
    using l d c w by (simp add: Test_def Let_def s1 s2 s3 s4)
qed

lemma Test_details:
  "lengthScore (details (fst (Test this p))) = fst (calculateLengthScore this p)"
  "diversityScore (details (fst (Test this p))) = fst (calculateDiversityScore this p)"
  "specialCharactersScore (details (fst (Test this p))) =
     fst (calculateSpecialCharactersScore this p)"
  "dictionaryScore (details (fst (Test this p))) = fst (calculateDictionaryScore this p)"
  by (simp_all add: Test_unfold)

lemma Test_state: "snd (Test this p) = this"
  by (simp add: Test_unfold)

subsection \<open>The total and the verdict\<close>

text \<open>
  C1. For every password \<open>p\<close>, the report of \<open>Test(p)\<close> has as its \<open>totalScore\<close> the plain
  sum of its four sub-scores, which are the values of the four scoring methods, and
  \<open>isSecure\<close> says whether the total is at least 75.
\<close>

theorem Test_totalScore_isSecure:
  "totalScore (fst (Test this p)) =
     lengthScore (details (fst (Test this p))) + diversityScore (details (fst (Test this p))) +
     specialCharactersScore (details (fst (Test this p))) +
     dictionaryScore (details (fst (Test this p)))
   \<and> isSecure (fst (Test this p)) = (totalScore (fst (Test this p)) \<ge> 75)
   \<and> lengthScore (details (fst (Test this p))) = fst (calculateLengthScore this p)
   \<and> diversityScore (details (fst (Test this p))) = fst (calculateDiversityScore this p)
   \<and> specialCharactersScore (details (fst (Test this p))) =
       fst (calculateSpecialCharactersScore this p)
   \<and> dictionaryScore (details (fst (Test this p))) = fst (calculateDictionaryScore this p)"
  by (simp add: Test_unfold)

text \<open>
  The third scenario of the specification, \<^verbatim>\<open>Abcdefg1!\<close> with an empty word list:
  \<open>25/6 + 100 + 25 + 50\<close>.
\<close>

theorem Test_totalScore_isSecure_witness:
  "totalScore (fst (Test forge_empty ''Abcdefg1!'')) = 1075 / 6
   \<and> isSecure (fst (Test forge_empty ''Abcdefg1!''))"
  using Test_totalScore_isSecure [of forge_empty "''Abcdefg1!''"]
  by (simp add: Test_unfold calculateLengthScore_def calculateDiversityScore_def
      calculateSpecialCharactersScore_def calculateDictionaryScore_def Let_def
      toLowerCase_def lowerChar_def class_defs forge_empty_def)

text \<open>The first two scenarios of the specification, with an empty word list.\<close>

lemma Test_empty_password:
  "fst (Test forge_empty []) =
     \<lparr>isSecure = False, totalScore = 50,
      details = \<lparr>lengthScore = 0, diversityScore = 0, specialCharactersScore = 0,
                 dictionaryScore = 50\<rparr>\<rparr>"
  by (simp add: Test_unfold calculateLengthScore_def calculateDiversityScore_def
      calculateSpecialCharactersScore_def calculateDictionaryScore_def Let_def
      toLowerCase_def forge_empty_def)

lemma Test_abcdefgh:
  "fst (Test forge_empty ''abcdefgh'') =
     \<lparr>isSecure = True, totalScore = 75,
      details = \<lparr>lengthScore = 0, diversityScore = 25, specialCharactersScore = 0,
                 dictionaryScore = 50\<rparr>\<rparr>"
  by (simp add: Test_unfold calculateLengthScore_def calculateDiversityScore_def
      calculateSpecialCharactersScore_def calculateDictionaryScore_def Let_def
      toLowerCase_def lowerChar_def class_defs forge_empty_def)

subsection \<open>The dictionary score\<close>

lemma calculateDictionaryScore_eq:
  "fst (calculateDictionaryScore this p) =
     max 0 (50 - 10 * real (length (filter (\<lambda>token. token \<in> dictionary this)
                                      (split_nonword [] (toLowerCase p)))))"
  by (simp add: calculateDictionaryScore_def Let_def mult.commute)

lemma toLowerCase_AB: "toLowerCase ''AB!cd'' = ''ab!cd''"
  by code_simp

text \<open>
  C2, as the code has it. The dictionary sub-score of \<open>Test(p)\<close> is \<open>max(0, 50 - 10 * m)\<close>
  where \<open>m\<close> counts the tokens of the case-folded password that are entries of the word
  list, every occurrence of a token counted. It is the score of the specification's
  wording when no matching token occurs twice, and never above it; it is 50 when no
  token matches and 0 when five or more distinct tokens match.
\<close>

theorem dictionaryScore_tokens:
  "dictionaryScore (details (fst (Test this p))) =
     max 0 (50 - 10 * real (length (filter (\<lambda>token. token \<in> dictionary this)
                                      (split_nonword [] (toLowerCase p)))))
   \<and> (distinct (filter (\<lambda>token. token \<in> dictionary this) (split_nonword [] (toLowerCase p)))
        \<longrightarrow> dictionaryScore (details (fst (Test this p))) =
              spec_dictionaryScore (dictionary this) p)
   \<and> (filter (\<lambda>token. token \<in> dictionary this) (split_nonword [] (toLowerCase p)) = []
        \<longrightarrow> dictionaryScore (details (fst (Test this p))) = 50)
   \<and> (5 \<le> length (remdups (filter (\<lambda>token. token \<in> dictionary this)
                                 (split_nonword [] (toLowerCase p))))
        \<longrightarrow> dictionaryScore (details (fst (Test this p))) = 0)
   \<and> dictionaryScore (details (fst (Test this p))) \<le> spec_dictionaryScore (dictionary this) p"
proof -
  define ms where
    "ms = filter (\<lambda>token. token \<in> dictionary this) (split_nonword [] (toLowerCase p))"
  have score: "dictionaryScore (details (fst (Test this p))) = max 0 (50 - 10 * real (length ms))"
    by (simp add: Test_details calculateDictionaryScore_eq ms_def)
  have spec: "spec_dictionaryScore (dictionary this) p =
      max 0 (50 - 10 * real (length (remdups ms)))"
    by (simp add: spec_dictionaryScore_def ms_def)
  have le: "length (remdups ms) \<le> length ms"
    by (rule length_remdups_leq)
  have c2: "distinct ms \<longrightarrow> dictionaryScore (details (fst (Test this p))) =
              spec_dictionaryScore (dictionary this) p"
    by (simp add: score spec distinct_remdups_id)
  have c3: "ms = [] \<longrightarrow> dictionaryScore (details (fst (Test this p))) = 50"
    by (simp add: score)
  have c4: "5 \<le> length (remdups ms) \<longrightarrow> dictionaryScore (details (fst (Test this p))) = 0"
  proof
    assume "5 \<le> length (remdups ms)"
    then have "5 \<le> length ms" using le by (rule order_trans)
    then have "5 \<le> real (length ms)" by simp
    then show "dictionaryScore (details (fst (Test this p))) = 0"
      by (simp add: score)
  qed
  have c5: "dictionaryScore (details (fst (Test this p))) \<le>
      spec_dictionaryScore (dictionary this) p"
  proof -
    have mono: "max 0 (50 - 10 * b) \<le> max 0 (50 - 10 * a)" if "a \<le> b" for a b :: real
      using that by auto
    from le have "real (length (remdups ms)) \<le> real (length ms)" by (rule of_nat_mono)
    then show ?thesis
      unfolding score spec by (rule mono)
  qed
  show ?thesis
    using score c2 c3 c4 c5 unfolding ms_def by blast
qed

text \<open>
  One matching token among two, in capitals; no matching token; five distinct matching
  tokens.
\<close>

theorem dictionaryScore_tokens_witness:
  "dictionaryScore (details (fst (Test forge_ab ''AB!cd''))) = 40
   \<and> spec_dictionaryScore (dictionary forge_ab) ''AB!cd'' = 40
   \<and> dictionaryScore (details (fst (Test forge_ab ''xy z''))) = 50
   \<and> dictionaryScore (details (fst (Test
         (forge_ab\<lparr>dictionary := set [''a'', ''b'', ''c'', ''d'', ''e'']\<rparr>) ''a b c d e''))) = 0"
proof -
  have t1: "split_nonword [] (toLowerCase ''AB!cd'') = [''ab'', ''cd'']"
    by (simp add: toLowerCase_AB class_defs)
  have t2: "split_nonword [] (toLowerCase ''xy z'') = [''xy'', ''z'']"
    by (simp add: toLowerCase_def lowerChar_def class_defs)
  have t3: "split_nonword [] (toLowerCase ''a b c d e'') = [''a'', ''b'', ''c'', ''d'', ''e'']"
    by (simp add: toLowerCase_def lowerChar_def class_defs)
  show ?thesis
    using dictionaryScore_tokens [of forge_ab "''AB!cd''"]
      dictionaryScore_tokens [of forge_ab "''xy z''"]
      dictionaryScore_tokens
        [of "forge_ab\<lparr>dictionary := set [''a'', ''b'', ''c'', ''d'', ''e'']\<rparr>" "''a b c d e''"]
    by (simp add: t1 t2 t3 forge_ab_def)
qed

text \<open>
  C2, as the specification words it, fails on a password that repeats a dictionary
  word: with the word list \<open>{ab}\<close>, the password \<^verbatim>\<open>ab ab\<close> has one distinct matching
  token, for a score of 40, and the code counts both occurrences and returns 30.
\<close>

theorem dictionaryScore_counterexample:
  "dictionaryScore (details (fst (Test forge_ab ''ab ab''))) = 30
   \<and> spec_dictionaryScore (dictionary forge_ab) ''ab ab'' = 40"
  by (simp add: Test_details calculateDictionaryScore_def Let_def toLowerCase_def lowerChar_def
      class_defs forge_ab_def spec_dictionaryScore_def)

subsection \<open>The special-characters score\<close>

lemma special_nonalnum: "re_special c \<Longrightarrow> re_nonalnum c"
  unfolding re_special_def specialCharacters_def
  by (auto simp add: re_nonalnum_def re_lower_def re_upper_def re_digit_def charCode_def)

text \<open>
  C3, as the code has it. The special-characters sub-score of \<open>Test(p)\<close> is 25 when \<open>p\<close>
  holds at least one of the 29 characters of \<^const>\<open>specialCharacters\<close> and 0 otherwise,
  whatever their number; each of the 29 is outside \<^verbatim>\<open>[A-Za-z0-9]\<close>, so the score is
  never above that of the specification's wording.
\<close>

theorem specialCharactersScore_listed:
  "specialCharactersScore (details (fst (Test this p))) =
     (if \<exists>c\<in>set p. c \<in> set specialCharacters then 25 else 0)
   \<and> specialCharactersScore (details (fst (Test this p))) \<le> spec_specialCharactersScore p"
proof -
  have "regex_test re_special p \<Longrightarrow> regex_test re_nonalnum p"
    using special_nonalnum by (auto simp add: regex_test_iff)
  then show ?thesis
    by (auto simp add: Test_details calculateSpecialCharactersScore_def regex_test_iff
      re_special_def spec_specialCharactersScore_def)
qed

theorem specialCharactersScore_listed_witness:
  "specialCharactersScore (details (fst (Test forge_empty ''a_b''))) = 25
   \<and> specialCharactersScore (details (fst (Test forge_empty ''!!!???''))) = 25
   \<and> specialCharactersScore (details (fst (Test forge_empty ''abc 123''))) = 0"
  using specialCharactersScore_listed [of forge_empty "''a_b''"]
    specialCharactersScore_listed [of forge_empty "''!!!???''"]
    specialCharactersScore_listed [of forge_empty "''abc 123''"]
  by (simp add: specialCharacters_def)

text \<open>
  C3, as the specification words it, fails on the very characters it names: a space, a
  backtick and a tilde are outside \<^verbatim>\<open>[A-Za-z0-9]\<close> and none is in the class of the
  regular expression, so the password of these three scores 0 and not 25.
\<close>

theorem specialCharactersScore_counterexample:
  "spec_specialCharactersScore '' `~'' = 25
   \<and> specialCharactersScore (details (fst (Test forge_empty '' `~''))) = 0"
  by (simp add: Test_details calculateSpecialCharactersScore_def class_defs
      spec_specialCharactersScore_def)

subsection \<open>The length score\<close>

text \<open>
  C4. The length sub-score of \<open>Test(p)\<close> is 0 below 8 characters, 50 above 20, and
  \<open>((|p| - 8) / (20 - 8)) * 50\<close> from 8 to 20 characters, with no offset added.
\<close>

theorem lengthScore_piecewise:
  "(length p < 8 \<longrightarrow> lengthScore (details (fst (Test this p))) = 0)
   \<and> (length p > 20 \<longrightarrow> lengthScore (details (fst (Test this p))) = 50)
   \<and> (8 \<le> length p \<and> length p \<le> 20 \<longrightarrow>
        lengthScore (details (fst (Test this p))) = ((real (length p) - 8) / (20 - 8)) * 50)"
  by (simp add: Test_details calculateLengthScore_def Let_def)

text \<open>Lengths 7, 21, 8, 14 and 20.\<close>

theorem lengthScore_piecewise_witness:
  "lengthScore (details (fst (Test forge_empty ''abcdefg''))) = 0
   \<and> lengthScore (details (fst (Test forge_empty ''abcdefghijklmnopqrstu''))) = 50
   \<and> lengthScore (details (fst (Test forge_empty ''abcdefgh''))) = 0
   \<and> lengthScore (details (fst (Test forge_empty ''abcdefghijklmn''))) = 25
   \<and> lengthScore (details (fst (Test forge_empty ''abcdefghijklmnopqrst''))) = 50"
  using lengthScore_piecewise [of "''abcdefg''" forge_empty]
    lengthScore_piecewise [of "''abcdefghijklmnopqrstu''" forge_empty]
    lengthScore_piecewise [of "''abcdefgh''" forge_empty]
    lengthScore_piecewise [of "''abcdefghijklmn''" forge_empty]
    lengthScore_piecewise [of "''abcdefghijklmnopqrst''" forge_empty]
  by simp

subsection \<open>The diversity score\<close>

lemma calculateDiversityScore_eq:
  "fst (calculateDiversityScore this p) =
     25 * (of_bool (\<exists>c\<in>set p. re_lower c) + of_bool (\<exists>c\<in>set p. re_upper c) +
           of_bool (\<exists>c\<in>set p. re_digit c) + of_bool (\<exists>c\<in>set p. re_nonword c))"
  by (simp add: calculateDiversityScore_def Let_def regex_test_iff)

text \<open>
  C5. The diversity sub-score of \<open>Test(p)\<close> is 25 for each of the four classes (lower-case
  letter, upper-case letter, digit, non-word character) that has a character in \<open>p\<close>, so
  at most 100. Nothing is taken off for repeats or runs: the score is the same for
  two passwords with the same set of characters, and appending characters never
  lowers it.
\<close>

theorem diversityScore_classes:
  "diversityScore (details (fst (Test this p))) =
     25 * (of_bool (\<exists>c\<in>set p. re_lower c) + of_bool (\<exists>c\<in>set p. re_upper c) +
           of_bool (\<exists>c\<in>set p. re_digit c) + of_bool (\<exists>c\<in>set p. re_nonword c))
   \<and> diversityScore (details (fst (Test this p))) \<le> 100
   \<and> (\<forall>q. set q = set p \<longrightarrow>
         diversityScore (details (fst (Test this q))) = diversityScore (details (fst (Test this p))))
   \<and> (\<forall>q. diversityScore (details (fst (Test this p))) \<le>
            diversityScore (details (fst (Test this (p @ q)))))"
  by (auto simp add: Test_details calculateDiversityScore_eq of_bool_def)

theorem diversityScore_classes_witness:
  "diversityScore (details (fst (Test forge_empty ''aB3!''))) = 100
   \<and> diversityScore (details (fst (Test forge_empty ''aaaBBB333!!!abc123''))) = 100
   \<and> diversityScore (details (fst (Test forge_empty ''abcabc''))) = 25"
  using diversityScore_classes [of forge_empty "''aB3!''"]
    diversityScore_classes [of forge_empty "''aaaBBB333!!!abc123''"]
    diversityScore_classes [of forge_empty "''abcabc''"]
  by (simp add: class_defs)

subsection \<open>Scoring twice\<close>

lemma sub_scores_depend_on_dictionary:
  "fst (calculateLengthScore this' p) = fst (calculateLengthScore this p)"
  "fst (calculateDiversityScore this' p) = fst (calculateDiversityScore this p)"
  "fst (calculateSpecialCharactersScore this' p) = fst (calculateSpecialCharactersScore this p)"
  "dictionary this' = dictionary this \<Longrightarrow>
     fst (calculateDictionaryScore this' p) = fst (calculateDictionaryScore this p)"
  by (simp_all add: calculateLengthScore_def calculateDiversityScore_def
      calculateSpecialCharactersScore_def calculateDictionaryScore_def Let_def)

lemma Test_depends_on_dictionary:
  assumes "dictionary this' = dictionary this"
  shows "fst (Test this' p) = fst (Test this p)"
  unfolding Test_unfold fst_conv
  by (simp only: sub_scores_depend_on_dictionary(1) [of this' p this]
      sub_scores_depend_on_dictionary(2) [of this' p this]
      sub_scores_depend_on_dictionary(3) [of this' p this]
      sub_scores_depend_on_dictionary(4) [OF assms])

text \<open>
  C10. \<open>Test(p)\<close> reads no file and draws no random byte (it takes neither a file system
  nor a random source), and it leaves the instance and the console as it found them,
  so a second call on the same password returns the same report; and the report is
  the same from any state with the same word list, whatever its other field and the
  console hold.
\<close>

theorem Test_deterministic_pure:
  "snd (Test this p) = this
   \<and> fst (Test (snd (Test this p)) p) = fst (Test this p)
   \<and> (\<forall>this'. dictionary this' = dictionary this \<longrightarrow> fst (Test this' p) = fst (Test this p))"
proof (intro conjI allI impI)
  show "snd (Test this p) = this"
    by (rule Test_state)
  then show "fst (Test (snd (Test this p)) p) = fst (Test this p)"
    by (simp only:)
  show "fst (Test this' p) = fst (Test this p)" if "dictionary this' = dictionary this" for this'
    using that by (rule Test_depends_on_dictionary)
qed

theorem Test_deterministic_pure_witness:
  "snd (Test forge_ab ''ab ab'') = forge_ab
   \<and> fst (Test (snd (Test forge_ab ''ab ab'')) ''ab ab'') = fst (Test forge_ab ''ab ab'')
   \<and> fst (Test (forge_ab\<lparr>dictionaryFilePath := ''other.txt'', console := [''line'']\<rparr>) ''ab ab'')
       = fst (Test forge_ab ''ab ab'')"
proof -
  have "dictionary (forge_ab\<lparr>dictionaryFilePath := ''other.txt'', console := [''line'']\<rparr>)
        = dictionary forge_ab"
    by simp
  with Test_deterministic_pure [of forge_ab "''ab ab''"] show ?thesis
    by blast
qed

section \<open>Properties of the generator\<close>

lemma RandInt_positive:
  "0 < m \<Longrightarrow> \<exists>j < m. RandInt rnd m k = (Some j, k + 4)"
  by (simp add: RandInt_def getRandomBytes_def Let_def)

lemma RandInt_zero: "RandInt rnd 0 k = (None, k + 4)"
  by (simp add: RandInt_def getRandomBytes_def Let_def)

lemma BasicPassword_loop_done:
  "\<not> i < len \<Longrightarrow> BasicPassword_loop rnd charset len i password k = (password, k)"
  by (simp add: BasicPassword_loop.simps)

lemma BasicPassword_loop_step:
  "i < len \<Longrightarrow> BasicPassword_loop rnd charset len i password k =
     BasicPassword_loop rnd charset len (i + 1)
       (string_add password (string_index charset (fst (RandInt rnd (length charset) k))))
       (snd (RandInt rnd (length charset) k))"
  by (subst BasicPassword_loop.simps) (simp add: case_prod_beta)

text \<open>
  The loop over a non-empty character set: from counter \<open>i\<close> it appends \<open>len - i\<close>
  characters of the set and makes four draws for each.
\<close>

lemma BasicPassword_loop_members:
  assumes "charset \<noteq> []" and "set password \<subseteq> set charset" and "i \<le> len"
  shows "\<exists>s. BasicPassword_loop rnd charset len i password k = (s, k + 4 * nat (len - i))
           \<and> length s = length password + nat (len - i) \<and> set s \<subseteq> set charset"
  using assms
proof (induction rnd charset len i password k rule: BasicPassword_loop.induct)
  case (1 rnd charset len i password k)
  show ?case
  proof (cases "i < len")
    case False
    with "1.prems" show ?thesis
      by (simp add: BasicPassword_loop_done)
  next
    case True
    from "1.prems"(1) obtain j where j: "j < length charset"
      and r: "RandInt rnd (length charset) k = (Some j, k + 4)"
      using RandInt_positive [of "length charset" rnd k] by auto
    let ?password = "string_add password (string_index charset (Some j))"
    have pw: "?password = password @ [charset ! j]"
      using j by (simp add: string_add_def string_index_def)
    have sub: "set ?password \<subseteq> set charset"
      using "1.prems"(2) j by (simp add: pw)
    from True have le: "i + 1 \<le> len" by simp
    from "1.IH" [OF True r [symmetric] "1.prems"(1) sub le]
    obtain s where s: "BasicPassword_loop rnd charset len (i + 1) ?password (k + 4)
          = (s, k + 4 + 4 * nat (len - (i + 1)))"
      and len: "length s = length ?password + nat (len - (i + 1))"
      and mem: "set s \<subseteq> set charset"
      by blast
    have n: "nat (len - i) = Suc (nat (len - (i + 1)))"
      using True by simp
    show ?thesis
      using s len mem by (simp add: BasicPassword_loop_step [OF True] r pw n)
  qed
qed

text \<open>The loop over the empty character set appends the text \<^verbatim>\<open>undefined\<close> each time.\<close>

lemma BasicPassword_loop_empty_charset:
  "BasicPassword_loop rnd [] len i password k =
     (password @ concat (replicate (nat (len - i)) ''undefined''), k + 4 * nat (len - i))"
proof (induction rnd "[] :: string" len i password k rule: BasicPassword_loop.induct)
  case (1 rnd len i password k)
  show ?case
  proof (cases "i < len")
    case False
    then show ?thesis
      by (simp add: BasicPassword_loop_done)
  next
    case True
    have r: "RandInt rnd (length ([] :: string)) k = (None, k + 4)"
      by (simp add: RandInt_zero)
    have n: "nat (len - i) = Suc (nat (len - (i + 1)))"
      using True by simp
    show ?thesis
      using "1.hyps" [OF True r [symmetric]]
      by (simp add: BasicPassword_loop_step [OF True] RandInt_zero n
          string_add_def string_index_def)
  qed
qed

text \<open>
  \<^verbatim>\<open>BasicPassword\<close> of \<^verbatim>\<open>part_001\<close> and of the second text of index.js: the class has
  no method \<^verbatim>\<open>getRandomInt\<close>, so the first turn of the loop raises \<^verbatim>\<open>TypeError\<close>.
\<close>

lemma BasicPassword_getRandomInt_TypeError:
  "BasicPassword_getRandomInt rnd charset len k =
     (if 0 < len then Inl TypeError else Inr ([], k))"
  by (simp add: BasicPassword_getRandomInt_def BasicPassword_getRandomInt_loop.simps
      CipherCraft_max_method_def)

text \<open>
  C6. For every alphabet \<open>a\<close> and integer \<open>n \<ge> 0\<close>, with \<open>a\<close> non-empty when \<open>n > 0\<close>,
  \<^verbatim>\<open>BasicPassword(a, n)\<close> of index.js returns a string of exactly \<open>n\<close> characters, each a
  member of \<open>a\<close>; for \<open>n = 0\<close> it is the empty string.
\<close>

theorem BasicPassword_length_members:
  assumes "0 \<le> n" and "0 < n \<longrightarrow> a \<noteq> []"
  shows "\<exists>s k'. BasicPassword rnd a n k = Inr (s, k')
           \<and> length s = nat n \<and> set s \<subseteq> set a \<and> (n = 0 \<longrightarrow> s = [])"
proof (cases "n = 0")
  case True
  then show ?thesis
    by (simp add: BasicPassword_def BasicPassword_loop_done)
next
  case False
  with assms have "a \<noteq> []" by simp
  from BasicPassword_loop_members [OF this, of "[]" 0 n rnd k] assms(1) False
  show ?thesis
    by (auto simp add: BasicPassword_def)
qed

theorem BasicPassword_length_members_witness:
  "\<exists>s k'. BasicPassword rand_count ''ab'' 3 0 = Inr (s, k')
           \<and> length s = 3 \<and> set s \<subseteq> set ''ab''"
proof -
  have "(0::int) \<le> 3" and "(0::int) < 3 \<longrightarrow> ''ab'' \<noteq> []"
    by simp_all
  from BasicPassword_length_members [OF this, of rand_count 0] show ?thesis
    by auto
qed

text \<open>
  C7, as the code has it. \<^verbatim>\<open>BasicPassword\<close> of index.js checks neither argument and
  raises no error, \<open>InvalidArgument\<close> or other: for every alphabet and integer length it
  returns a string, the empty string when the length is 0 or negative.
\<close>

theorem BasicPassword_never_fails:
  "(\<exists>s k'. BasicPassword rnd a n k = Inr (s, k'))
   \<and> BasicPassword rnd a n k \<noteq> Inl InvalidArgument
   \<and> (n \<le> 0 \<longrightarrow> BasicPassword rnd a n k = Inr ([], k))"
proof (intro conjI impI)
  show "\<exists>s k'. BasicPassword rnd a n k = Inr (s, k')"
    by (cases "BasicPassword_loop rnd a n 0 [] k") (simp add: BasicPassword_def)
  show "BasicPassword rnd a n k \<noteq> Inl InvalidArgument"
    by (simp add: BasicPassword_def)
  show "BasicPassword rnd a n k = Inr ([], k)" if "n \<le> 0"
    using that by (simp add: BasicPassword_def BasicPassword_loop_done)
qed

theorem BasicPassword_never_fails_witness:
  "BasicPassword rand_count ''abc'' (- 2) 7 = Inr ([], 7)
   \<and> BasicPassword rand_count [] 0 7 = Inr ([], 7)"
  using BasicPassword_never_fails [of rand_count "''abc''" "- 2" 7]
    BasicPassword_never_fails [of rand_count "[]" 0 7]
  by simp

text \<open>
  C7, as the specification words it, fails where it asks for the error: on the empty
  alphabet with length 5 the call returns the text \<^verbatim>\<open>undefined\<close> five times, and on
  length \<open>-1\<close> it returns the empty string.
\<close>

theorem BasicPassword_InvalidArgument_counterexample:
  "spec_generate_fails [] 5
   \<and> BasicPassword rand_count [] 5 0 = Inr (''undefinedundefinedundefinedundefinedundefined'', 20)
   \<and> spec_generate_fails ''ab'' (- 1)
   \<and> BasicPassword rand_count ''ab'' (- 1) 0 = Inr ([], 0)"
  by (simp add: spec_generate_fails_def BasicPassword_def BasicPassword_loop_empty_charset
      BasicPassword_loop_done eval_nat_numeral)

text \<open>
  C8. For every options object \<^verbatim>\<open>CustomPassword\<close> raises an error and returns no
  string, and so does \<^verbatim>\<open>Key\<close> for every length: both call \<^verbatim>\<open>this.generatePassword\<close>,
  which is no method of the class.
\<close>

theorem CustomPassword_Key_TypeError:
  "CustomPassword rnd opts k = Inl TypeError \<and> Key rnd length_arg k' = Inl TypeError"
  by (simp add: CustomPassword_def Key_def CipherCraft_charset_method_def Let_def)

theorem CustomPassword_Key_TypeError_witness:
  "CustomPassword rand_count options_default 0 = Inl TypeError
   \<and> CustomPassword rand_count
        (options_default\<lparr>length_opt := Some 16, customCharset := Some ''xyz''\<rparr>) 0
       = Inl TypeError
   \<and> Key rand_count None 0 = Inl TypeError
   \<and> Key rand_count (Some 64) 0 = Inl TypeError"
  using CustomPassword_Key_TypeError [of rand_count options_default 0 None 0]
    CustomPassword_Key_TypeError [of rand_count
      "options_default\<lparr>length_opt := Some 16, customCharset := Some ''xyz''\<rparr>" 0 "Some 64" 0]
  by simp

section \<open>Constructing the scorer when the dictionary cannot be read\<close>

lemma path_unbound: "\<not> identifier_bound ''path''"
  by (simp add: identifier_bound_def module_bindings_def node_module_scope_def
      node_globals_def)

text \<open>The constructor raises \<^verbatim>\<open>ReferenceError\<close> whatever the file system holds.\<close>

lemma CipherForge_constructor_ReferenceError:
  "CipherForge_constructor readFileSync main_path console0 = Inl ReferenceError"
  by (simp add: CipherForge_constructor_def path_unbound)

text \<open>
  \<^verbatim>\<open>loadDictionary\<close> by itself does what the specification asks: a read that fails
  gives the empty list and one line on the console, and raises nothing.
\<close>

lemma loadDictionary_failure:
  "readFileSync (dictionaryFilePath this) = Inl message \<Longrightarrow>
     loadDictionary readFileSync this =
       ([], this\<lparr>console := console this @
              [''Error reading file '' @ dictionaryFilePath this @ '': '' @ message]\<rparr>)"
  by (simp add: loadDictionary_def)

text \<open>With an empty word list the dictionary score is 50 for every password.\<close>

lemma empty_dictionary_score:
  "dictionary this = {} \<Longrightarrow> dictionaryScore (details (fst (Test this p))) = 50"
  by (simp add: Test_details calculateDictionaryScore_def Let_def)

text \<open>
  C9. When the dictionary file is missing, \<^verbatim>\<open>new CipherForge()\<close> does not return a scorer
  with an empty word list: it raises \<^verbatim>\<open>ReferenceError\<close> at its first statement, before
  \<^verbatim>\<open>loadDictionary\<close> is called.
\<close>

theorem CipherForge_constructor_missing_file:
  "CipherForge_constructor fs_missing ''/app'' [] = Inl ReferenceError"
  by (simp add: CipherForge_constructor_def path_unbound)

end
